theory Spec2Isabelle
  imports Complex_Main "HOL-Library.Word"
begin

section \<open>Data model (internal/b2c/v1/model.go, api/proto/b2c.v1.proto)\<close>

text \<open>
  Instants are seconds since the Unix epoch in UTC, so \<open>UTC()\<close> and \<open>Unix()\<close> are the
  identity on them. Go's \<open>float32\<close> and \<open>float64\<close> columns are only copied, never
  computed with; they are carried as reals and the conversion \<open>float32(x)\<close> as the
  identity.
\<close>

type_synonym time = int
type_synonym float32 = real
type_synonym float64 = real

text \<open>\<open>sql.NullString\<close> and \<open>sql.NullTime\<close>: a value and the flag that says it is not NULL.\<close>

record NullString =
  ns_String :: string
  ns_Valid :: bool

record NullTime =
  nt_Time :: time
  nt_Valid :: bool

text \<open>The \<open>Payment\<close> struct, one row of the b2c transactions table.\<close>

record Payment =
  ID :: nat
  InitiatorID :: string
  InitiatorCustomerReference :: string
  InitiatorCustomerNames :: string
  Msisdn :: string
  OrgShortCode :: string
  CommandId :: string
  TransactionAmount :: float32
  ConversationID :: string
  OriginatorConversationID :: string
  ResponseDescription :: string
  ResponseCode :: string
  ResultCode :: string
  ResultDescription :: string
  WorkingAccountFunds :: float32
  UtilityAccountFunds :: float32
  MpesaCharges :: float32
  SystemCharges :: float32
  RecipientRegistered :: bool
  MpesaReceiptId :: NullString
  ReceiverPublicName :: string
  B2CStatus :: string
  Source :: string
  Tag :: string
  Succeeded :: string
  Processed :: string
  TransactionTime :: NullTime
  UpdatedAt :: time
  CreatedAt :: time

text \<open>The enums of the protobuf API with their generated \<open>String()\<close> and \<open>_value\<close> tables.\<close>

datatype CommandId_enum =
  COMMANDID_UNSPECIFIED | SALARY_PAYMENT | BUSINESS_PAYMENT | PROMOTION_PAYMENT

fun CommandId_String :: "CommandId_enum \<Rightarrow> string" where
  "CommandId_String COMMANDID_UNSPECIFIED = ''COMMANDID_UNSPECIFIED''"
| "CommandId_String SALARY_PAYMENT = ''SALARY_PAYMENT''"
| "CommandId_String BUSINESS_PAYMENT = ''BUSINESS_PAYMENT''"
| "CommandId_String PROMOTION_PAYMENT = ''PROMOTION_PAYMENT''"

text \<open>\<open>CommandId(CommandId_value[s])\<close>: a name that is not in the table reads as 0.\<close>

definition CommandId_value :: "string \<Rightarrow> CommandId_enum" where
  "CommandId_value s =
     (if s = ''SALARY_PAYMENT'' then SALARY_PAYMENT
      else if s = ''BUSINESS_PAYMENT'' then BUSINESS_PAYMENT
      else if s = ''PROMOTION_PAYMENT'' then PROMOTION_PAYMENT
      else COMMANDID_UNSPECIFIED)"

datatype B2CStatus_enum =
  B2C_STATUS_UNKNOWN | B2C_REQUEST_FAILED | B2C_REQUEST_SUBMITED | B2C_SUCCESS | B2C_FAILED

fun B2CStatus_String :: "B2CStatus_enum \<Rightarrow> string" where
  "B2CStatus_String B2C_STATUS_UNKNOWN = ''B2C_STATUS_UNKNOWN''"
| "B2CStatus_String B2C_REQUEST_FAILED = ''B2C_REQUEST_FAILED''"
| "B2CStatus_String B2C_REQUEST_SUBMITED = ''B2C_REQUEST_SUBMITED''"
| "B2CStatus_String B2C_SUCCESS = ''B2C_SUCCESS''"
| "B2CStatus_String B2C_FAILED = ''B2C_FAILED''"

definition B2CStatus_value :: "string \<Rightarrow> B2CStatus_enum" where
  "B2CStatus_value s =
     (if s = ''B2C_REQUEST_FAILED'' then B2C_REQUEST_FAILED
      else if s = ''B2C_REQUEST_SUBMITED'' then B2C_REQUEST_SUBMITED
      else if s = ''B2C_SUCCESS'' then B2C_SUCCESS
      else if s = ''B2C_FAILED'' then B2C_FAILED
      else B2C_STATUS_UNKNOWN)"

text \<open>
  The protobuf message \<open>B2CPayment\<close>, the public response shape. \<open>pb_CreateDate\<close> holds
  the instant whose RFC 3339 text the Go field carries.
\<close>

record B2CPayment =
  pb_TransactionId :: nat
  pb_InitiatorId :: string
  pb_InitiatorCustomerReference :: string
  pb_InitiatorCustomerNames :: string
  pb_OrgShortCode :: string
  pb_CommandId :: CommandId_enum
  pb_Msisdn :: string
  pb_Amount :: float32
  pb_ConversationId :: string
  pb_OriginalConversationId :: string
  pb_B2CResponseDescription :: string
  pb_B2CResponseCode :: string
  pb_B2CResultDescription :: string
  pb_B2CResultCode :: string
  pb_ReceiverPartyPublicName :: string
  pb_MpesaReceiptId :: string
  pb_WorkingAccountFunds :: float32
  pb_UtilityAccountFunds :: float32
  pb_MpesaCharges :: float32
  pb_SystemCharges :: float32
  pb_RecipientRegistered :: bool
  pb_B2CStatus :: B2CStatus_enum
  pb_Source :: string
  pb_Tag :: string
  pb_Succeeded :: bool
  pb_Processed :: bool
  pb_TransactionTimestamp :: int
  pb_CreateDate :: time

text \<open>
  \<open>PaymentProto\<close> returns the message and an error that is always nil; the error is kept
  as the \<open>Inl\<close> side of the result, which no input reaches.
\<close>

datatype proto_error = ProtoError

definition PaymentProto :: "Payment \<Rightarrow> proto_error + B2CPayment" where
  "PaymentProto db = Inr \<lparr>
     pb_TransactionId = ID db,
     pb_InitiatorId = InitiatorID db,
     pb_InitiatorCustomerReference = InitiatorCustomerReference db,
     pb_InitiatorCustomerNames = InitiatorCustomerNames db,
     pb_OrgShortCode = OrgShortCode db,
     pb_CommandId = CommandId_value (CommandId db),
     pb_Msisdn = Msisdn db,
     pb_Amount = TransactionAmount db,
     pb_ConversationId = ConversationID db,
     pb_OriginalConversationId = OriginatorConversationID db,
     pb_B2CResponseDescription = ResponseDescription db,
     pb_B2CResponseCode = ResponseCode db,
     pb_B2CResultDescription = ResultDescription db,
     pb_B2CResultCode = ResultCode db,
     pb_ReceiverPartyPublicName = ReceiverPublicName db,
     pb_MpesaReceiptId = ns_String (MpesaReceiptId db),
     pb_WorkingAccountFunds = WorkingAccountFunds db,
     pb_UtilityAccountFunds = UtilityAccountFunds db,
     pb_MpesaCharges = MpesaCharges db,
     pb_SystemCharges = SystemCharges db,
     pb_RecipientRegistered = RecipientRegistered db,
     pb_B2CStatus = B2CStatus_value (B2CStatus db),
     pb_Source = Source db,
     pb_Tag = Tag db,
     pb_Succeeded = (Succeeded db = ''YES''),
     pb_Processed = (Processed db = ''YES''),
     pb_TransactionTimestamp = nt_Time (TransactionTime db),
     pb_CreateDate = CreatedAt db \<rparr>"

section \<open>Credential refresh (internal/b2c/v1/worker.go)\<close>

subsection \<open>Strings\<close>

text \<open>
  \<open>strings.ToLower\<close> on header values, which are read as ASCII: the letters A to Z are
  mapped to a to z and every other byte is kept.
\<close>

definition lower_char :: "char \<Rightarrow> char" where
  "lower_char c =
     (case map_of (zip ''ABCDEFGHIJKLMNOPQRSTUVWXYZ'' ''abcdefghijklmnopqrstuvwxyz'') c of
        Some d \<Rightarrow> d
      | None \<Rightarrow> c)"

definition ToLower :: "string \<Rightarrow> string" where
  "ToLower s = map lower_char s"

fun HasPrefix :: "string \<Rightarrow> string \<Rightarrow> bool" where
  "HasPrefix s [] = True"
| "HasPrefix [] (p # ps) = False"
| "HasPrefix (c # cs) (p # ps) = (c = p \<and> HasPrefix cs ps)"

text \<open>\<open>strings.Contains s substr\<close>: \<open>substr\<close> starts at some position of \<open>s\<close>.\<close>

fun Contains :: "string \<Rightarrow> string \<Rightarrow> bool" where
  "Contains [] substr = (substr = [])"
| "Contains (c # cs) substr = (HasPrefix (c # cs) substr \<or> Contains cs substr)"

subsection \<open>The token endpoint's answer\<close>

text \<open>
  A decoded JSON value as \<open>fmt.Sprint\<close> sees it. Numbers, arrays and objects carry the
  text that \<open>fmt.Sprint\<close> prints for them.
\<close>

datatype json_value = JString string | JNull | JBool bool | JOther string

text \<open>
  \<open>fmt.Sprint(resTo["access_token"])\<close>: reading a key that the map does not hold gives the
  nil interface, which prints as \<open><nil>\<close>, as JSON null does.
\<close>

fun Sprint :: "json_value option \<Rightarrow> string" where
  "Sprint None = ''<nil>''"
| "Sprint (Some JNull) = ''<nil>''"
| "Sprint (Some (JString s)) = s"
| "Sprint (Some (JBool b)) = (if b then ''true'' else ''false'')"
| "Sprint (Some (JOther s)) = s"

text \<open>
  What \<open>json.NewDecoder(res.Body).Decode(&resTo)\<close> does with the body: an error other than
  \<open>io.EOF\<close>, \<open>io.EOF\<close> (an empty body, \<open>resTo\<close> stays empty), or the decoded object.
\<close>

datatype body_decode =
  DecodeError | DecodeEOF | DecodeObject "string \<rightharpoonup> json_value"

text \<open>
  What the HTTP exchange gives: \<open>http.NewRequest\<close> fails; \<open>HTTPClient.Do\<close> fails with an
  error that is not \<open>io.EOF\<close>; \<open>Do\<close> fails with \<open>io.EOF\<close>, where the response is nil; or a
  response with its status code, content-type header and body.
\<close>

datatype http_outcome =
  NewRequestError | DoError | DoEOF | Response int string body_decode

datatype token_error =
  FailedToCreateRequest | RequestFailed | ExpectedStatusOK int
  | ExpectedApplicationJSON string | FailedToJSONDecode

text \<open>A Go call either returns or panics.\<close>

datatype 'a run = Panic | Ret 'a

record b2cAPIServer =
  accessToken :: string

definition StatusOK :: int where "StatusOK = 200"
definition StatusBadRequest :: int where "StatusBadRequest = 400"
definition StatusInternalServerError :: int where "StatusInternalServerError = 500"

text \<open>
  \<open>updateAccessToken\<close> returns its error (\<open>None\<close> is nil) and the server with the token it
  now holds. After \<open>Do\<close> fails with \<open>io.EOF\<close> the function goes on to read
  \<open>res.StatusCode\<close> of a nil response, which panics.
\<close>

definition updateAccessToken ::
  "http_outcome \<Rightarrow> b2cAPIServer \<Rightarrow> (token_error option \<times> b2cAPIServer) run" where
  "updateAccessToken h b2cAPI =
     (case h of
        NewRequestError \<Rightarrow> Ret (Some FailedToCreateRequest, b2cAPI)
      | DoError \<Rightarrow> Ret (Some RequestFailed, b2cAPI)
      | DoEOF \<Rightarrow> Panic
      | Response status ctype body \<Rightarrow>
          if status \<noteq> StatusOK then Ret (Some (ExpectedStatusOK status), b2cAPI)
          else if \<not> Contains (ToLower ctype) ''application/json''
            then Ret (Some (ExpectedApplicationJSON ctype), b2cAPI)
          else (case body of
                  DecodeError \<Rightarrow> Ret (Some FailedToJSONDecode, b2cAPI)
                | DecodeEOF \<Rightarrow>
                    Ret (None, b2cAPI\<lparr>accessToken := Sprint (Map.empty ''access_token'')\<rparr>)
                | DecodeObject resTo \<Rightarrow>
                    Ret (None, b2cAPI\<lparr>accessToken := Sprint (resTo ''access_token'')\<rparr>)))"

subsection \<open>The refresh loop\<close>

text \<open>
  \<open>time.Duration\<close> is a signed 64-bit count of nanoseconds; \<open>sleep * 2\<close> wraps around.
\<close>

type_synonym Duration = "64 word"

definition Second :: Duration where "Second = 1000000000"

record worker =
  api :: b2cAPIServer
  sleep :: Duration

text \<open>
  What the loop does that can be seen from outside: \<open>time.Sleep d\<close>, which blocks the
  goroutine for \<open>d\<close> (not at all when \<open>d\<close> is zero or negative), and \<open>ticker.Reset\<close>.
\<close>

datatype action = Slept Duration | TickerReset

text \<open>The closure \<open>updateToken\<close>, given the outcome of the HTTP exchange it starts.\<close>

definition updateToken :: "http_outcome \<Rightarrow> worker \<Rightarrow> (action list \<times> worker) run" where
  "updateToken h w =
     (case updateAccessToken h (api w) of
        Panic \<Rightarrow> Panic
      | Ret (Some err, b2cAPI) \<Rightarrow>
          Ret ([Slept (sleep w)], w\<lparr>api := b2cAPI, sleep := sleep w * 2\<rparr>)
      | Ret (None, b2cAPI) \<Rightarrow>
          Ret ([TickerReset], w\<lparr>api := b2cAPI, sleep := Second * 10\<rparr>))"

text \<open>
  The \<open>for { select { ... } }\<close> loop consumes what the select receives: the context's
  \<open>Done\<close> channel, or a tick, which starts a refresh with the given outcome. When the
  events run out the goroutine is still blocked in the select (\<open>Waiting\<close>).
\<close>

datatype event = CtxDone | Tick http_outcome

datatype exit = Returned | Waiting | Crashed

fun worker_loop :: "event list \<Rightarrow> worker \<Rightarrow> action list \<times> worker \<times> exit" where
  "worker_loop [] w = ([], w, Waiting)"
| "worker_loop (CtxDone # es) w = ([], w, Returned)"
| "worker_loop (Tick h # es) w =
     (case updateToken h w of
        Panic \<Rightarrow> ([], w, Crashed)
      | Ret (acts, w') \<Rightarrow>
          (case worker_loop es w' of (acts', w'', x) \<Rightarrow> (acts @ acts', w'', x)))"

text \<open>
  \<open>updateAccessTokenWorker\<close>: a first refresh before the loop, with outcome \<open>h0\<close>, then
  \<open>ticker.Reset\<close>, then the loop.
\<close>

definition updateAccessTokenWorker ::
  "http_outcome \<Rightarrow> event list \<Rightarrow> b2cAPIServer \<Rightarrow> action list \<times> worker \<times> exit" where
  "updateAccessTokenWorker h0 es b2cAPI =
     (let w = \<lparr>api = b2cAPI, sleep = Second * 10\<rparr> in
      case updateToken h0 w of
        Panic \<Rightarrow> ([], w, Crashed)
      | Ret (acts, w') \<Rightarrow>
          (case worker_loop es w' of
             (acts', w'', x) \<Rightarrow> (acts @ [TickerReset] @ acts', w'', x)))"

text \<open>The durations of the sleeps in a run, as signed nanosecond counts.\<close>

fun waits :: "action list \<Rightarrow> int list" where
  "waits [] = []"
| "waits (Slept d # acts) = sint d # waits acts"
| "waits (TickerReset # acts) = waits acts"

section \<open>Callback reconciliation (the gateway's \<open>fromSaf\<close>)\<close>

subsection \<open>The callback and the cached request\<close>

text \<open>
  Modelled from the spec: the package \<open>pkg/payload\<close> with the type \<open>Transaction\<close> is not
  among the sources. The spec describes the callback as a JSON document with the nested
  result fields \<open>conversationID\<close>, \<open>originatorConversationID\<close>, \<open>resultCode\<close> (an integer,
  zero for success) and \<open>resultDesc\<close>, "plus nested result-parameter entries surfaced as
  named accessors". The four result fields are the fields \<open>Result_...\<close>; each accessor is
  represented by the value it returns (\<open>tx_...\<close>), and the accessors \<open>ConversationID()\<close> and
  \<open>OriginatorConversationID()\<close> return the result fields of the same name.
\<close>

record Transaction =
  Result_ConversationID :: string
  Result_OriginatorConversationID :: string
  Result_ResultCode :: int
  Result_ResultDesc :: string
  tx_MSISDN :: string
  tx_TransactionAmount :: float64
  tx_TransactionReceipt :: string
  tx_ReceiverPartyPublicName :: string
  tx_B2CRecipientIsRegisteredCustomer :: bool
  tx_B2CWorkingAccountAvailableFunds :: float64
  tx_B2CUtilityAccountAvailableFunds :: float64
  tx_B2CChargesPaidAccountAvailableFunds :: float64
  tx_TransactionCompletedDateTime :: time

definition tx_ConversationID :: "Transaction \<Rightarrow> string" where
  "tx_ConversationID p = Result_ConversationID p"

definition tx_OriginatorConversationID :: "Transaction \<Rightarrow> string" where
  "tx_OriginatorConversationID p = Result_OriginatorConversationID p"

text \<open>The protobuf messages \<open>PublishInfo\<close> and \<open>TransferFundsRequest\<close>.\<close>

record PublishInfo =
  pi_OnlyOnSuccess :: bool
  pi_ChannelName :: string
  pi_Payload :: "(string \<times> string) list"

record TransferFundsRequest =
  req_InitiatorId :: string
  req_InitiatorCustomerReference :: string
  req_InitiatorCustomerNames :: string
  req_Msisdn :: string
  req_Amount :: float64
  req_ShortCode :: string
  req_Remarks :: string
  req_Occassion :: string
  req_CommandId :: CommandId_enum
  req_Publish :: bool
  req_PublishMessage :: "PublishInfo option"

text \<open>\<open>&b2c_v1.TransferFundsRequest{}\<close>: every field at its zero value.\<close>

definition TransferFundsRequest_zero :: TransferFundsRequest where
  "TransferFundsRequest_zero = \<lparr>
     req_InitiatorId = [], req_InitiatorCustomerReference = [],
     req_InitiatorCustomerNames = [], req_Msisdn = [], req_Amount = 0,
     req_ShortCode = [], req_Remarks = [], req_Occassion = [],
     req_CommandId = COMMANDID_UNSPECIFIED, req_Publish = False,
     req_PublishMessage = None \<rparr>"

text \<open>The nil-safe getter chain \<open>GetPublishMessage().GetOnlyOnSuccess()\<close>.\<close>

definition GetOnlyOnSuccess :: "PublishInfo option \<Rightarrow> bool" where
  "GetOnlyOnSuccess m = (case m of None \<Rightarrow> False | Some i \<Rightarrow> pi_OnlyOnSuccess i)"

subsection \<open>Correlation store (Redis)\<close>

text \<open>
  A cached value either unmarshals to a request, or \<open>proto.Unmarshal\<close> reports an error
  and leaves in the message what it had read so far.
\<close>

datatype redis_value = Serialized TransferFundsRequest | Malformed TransferFundsRequest

datatype redis_error = RedisNil | RedisUnreachable

record cache =
  entries :: "string \<rightharpoonup> redis_value"
  redis_up :: bool

text \<open>
  Modelled from the spec: \<open>GetMpesaRequestKey\<close> is not among the sources. The spec gives
  the key format as "a namespaced string derived from the conversation identifier (e.g.,
  \<open>mpesa:b2c:request:<conversationID>\<close>)".
\<close>

definition GetMpesaRequestKey :: "string \<Rightarrow> string" where
  "GetMpesaRequestKey conversationID = ''mpesa:b2c:request:'' @ conversationID"

definition RedisGet :: "cache \<Rightarrow> string \<Rightarrow> redis_error + redis_value" where
  "RedisGet c k =
     (if \<not> redis_up c then Inl RedisUnreachable
      else case entries c k of None \<Rightarrow> Inl RedisNil | Some v \<Rightarrow> Inr v)"

text \<open>
  Lines 737 to 744: on a hit the value is unmarshalled into \<open>tranferReq\<close> (an unmarshal
  error is only logged); on any error of the lookup \<open>tranferReq\<close> stays the zero message.
\<close>

definition lookup_tranferReq :: "cache \<Rightarrow> string \<Rightarrow> TransferFundsRequest" where
  "lookup_tranferReq c k =
     (case RedisGet c k of
        Inl err \<Rightarrow> TransferFundsRequest_zero
      | Inr (Serialized t) \<Rightarrow> t
      | Inr (Malformed t) \<Rightarrow> t)"

subsection \<open>Record store (the SQL table behind gorm)\<close>

text \<open>
  The table holds its rows in primary-key order and hands out \<open>next_id\<close> to the next
  insert. The only unique index that the struct tags of \<open>Payment\<close> declare, besides the
  primary key, is the one on \<open>mpesa_receipt_id\<close>; NULL receipts do not take part in it.
  The columns \<open>conversation_id\<close> and \<open>originator_conversation_id\<close> carry a plain index.
\<close>

datatype db_error =
  ErrRecordNotFound | ErrDuplicatedKey | ErrMissingWhereClause | ErrConnection

record store =
  rows :: "Payment list"
  next_id :: nat
  db_up :: bool

text \<open>\<open>First(db, "conversation_id = ?", c)\<close>: the matching row with the least primary key.\<close>

definition First :: "store \<Rightarrow> string \<Rightarrow> db_error + Payment" where
  "First st c =
     (if \<not> db_up st then Inl ErrConnection
      else case find (\<lambda>r. ConversationID r = c) (rows st) of
             None \<Rightarrow> Inl ErrRecordNotFound
           | Some r \<Rightarrow> Inr r)"

text \<open>Some row other than the one with primary key \<open>i\<close> holds the non-NULL receipt \<open>s\<close>.\<close>

definition receipt_taken :: "Payment list \<Rightarrow> nat \<Rightarrow> string \<Rightarrow> bool" where
  "receipt_taken rs i s =
     (find (\<lambda>r. ID r \<noteq> i \<and> ns_Valid (MpesaReceiptId r) \<and> ns_String (MpesaReceiptId r) = s) rs
        \<noteq> None)"

text \<open>The map given to \<open>Updates\<close> on lines 751 to 762, one field per key.\<close>

record updates_map =
  u_result_code :: string
  u_result_description :: string
  u_working_account_funds :: float32
  u_utility_account_funds :: float32
  u_mpesa_charges :: float32
  u_recipient_registered :: bool
  u_mpesa_receipt_id :: string
  u_transaction_time :: NullTime
  u_receiver_public_name :: string
  u_b2c_status :: string
  u_succeeded :: string

text \<open>
  What \<open>Updates\<close> assigns to a row, and to the model struct in memory: the columns of the
  map, a plain string for \<open>mpesa_receipt_id\<close> being a non-NULL value, and \<open>updated_at\<close>
  because of the tag \<open>autoUpdateTime\<close>.
\<close>

definition assign :: "updates_map \<Rightarrow> time \<Rightarrow> Payment \<Rightarrow> Payment" where
  "assign m now r = r\<lparr>
     ResultCode := u_result_code m,
     ResultDescription := u_result_description m,
     WorkingAccountFunds := u_working_account_funds m,
     UtilityAccountFunds := u_utility_account_funds m,
     MpesaCharges := u_mpesa_charges m,
     RecipientRegistered := u_recipient_registered m,
     MpesaReceiptId := \<lparr>ns_String = u_mpesa_receipt_id m, ns_Valid = True\<rparr>,
     TransactionTime := u_transaction_time m,
     ReceiverPublicName := u_receiver_public_name m,
     B2CStatus := u_b2c_status m,
     Succeeded := u_succeeded m,
     UpdatedAt := now \<rparr>"

text \<open>
  \<open>Model(db).Updates(m)\<close>: an UPDATE of the rows whose primary key is that of \<open>db\<close>. gorm
  refuses an update without a condition, which is the case when the primary key is zero.
\<close>

definition Updates ::
  "store \<Rightarrow> time \<Rightarrow> Payment \<Rightarrow> updates_map \<Rightarrow> db_error + store \<times> Payment" where
  "Updates st now db m =
     (if ID db = 0 then Inl ErrMissingWhereClause
      else if \<not> db_up st then Inl ErrConnection
      else if find (\<lambda>r. ID r = ID db) (rows st) \<noteq> None
              \<and> receipt_taken (rows st) (ID db) (u_mpesa_receipt_id m)
        then Inl ErrDuplicatedKey
      else Inr (st\<lparr>rows := map (\<lambda>r. if ID r = ID db then assign m now r else r) (rows st)\<rparr>,
                assign m now db))"

text \<open>
  \<open>Create(db)\<close> with a zero primary key and zero timestamps: the store assigns the key,
  and the tags \<open>autoCreateTime\<close> and \<open>autoUpdateTime\<close> set both timestamps.
\<close>

definition Create :: "store \<Rightarrow> time \<Rightarrow> Payment \<Rightarrow> db_error + store \<times> Payment" where
  "Create st now db =
     (if \<not> db_up st then Inl ErrConnection
      else if ns_Valid (MpesaReceiptId db)
              \<and> receipt_taken (rows st) 0 (ns_String (MpesaReceiptId db))
        then Inl ErrDuplicatedKey
      else (let db' = db\<lparr>ID := next_id st, UpdatedAt := now, CreatedAt := now\<rparr>
            in Inr (st\<lparr>rows := rows st @ [db'], next_id := Suc (next_id st)\<rparr>, db')))"

subsection \<open>The handler\<close>

text \<open>
  The request as the handler reads it: the method, the \<open>content-type\<close> header, what
  \<open>json.NewDecoder(r.Body).Decode\<close> gives (\<open>None\<close> when it fails), and whether the final
  \<open>w.Write\<close> succeeds.
\<close>

record request =
  Method :: string
  ContentType :: string
  Body :: "Transaction option"
  write_ok :: bool

datatype handler_error =
  BadMethod string | DecodingJSONFailed | UnexpectedContentType string
  | MissingConversationId | MissingOriginatorId | MissingDescription
  | FailedToUpdateB2C db_error | FailedToCreateB2CPayload db_error | FailedToCreateB2C
  | FailedToGetB2CProto | WriteFailed

record PublishMessage =
  pm_InitiatorId :: string
  pm_TransactionId :: nat
  pm_MpesaReceiptId :: string
  pm_Msisdn :: string
  pm_PublishInfo :: "PublishInfo option"
  pm_Payment :: B2CPayment

text \<open>
  The gateway's collaborators, and the calls it has made to them in order: the cache
  lookup, the three store operations, the publish call and the write of the response
  body.
\<close>

datatype call =
  RedisGetCall string | FirstCall string | UpdatesCall nat updates_map
  | CreateCall Payment | PublishCall PublishMessage | WriteCall

record b2cGateway =
  SQLDB :: store
  RedisDB :: cache
  calls :: "call list"

text \<open>\<open>fmt.Sprint\<close> of an integer: its decimal digits, with a minus sign when negative.\<close>

function Utoa :: "nat \<Rightarrow> string" where
  "Utoa n = (if n < 10 then [''0123456789'' ! n]
             else Utoa (n div 10) @ [''0123456789'' ! (n mod 10)])"
  by pat_completeness auto
termination
  by (relation "measure id") auto

declare Utoa.simps [simp del]

definition Sprint_int :: "int \<Rightarrow> string" where
  "Sprint_int i = (if i < 0 then CHR ''-'' # Utoa (nat (- i)) else Utoa (nat i))"

text \<open>Lines 715 to 727. The payload pointer is never nil, so that case is left out.\<close>

definition validate :: "Transaction \<Rightarrow> handler_error option" where
  "validate b2cPayload =
     (if Result_ConversationID b2cPayload = [] then Some MissingConversationId
      else if Result_OriginatorConversationID b2cPayload = [] then Some MissingOriginatorId
      else if Result_ResultDesc b2cPayload = [] then Some MissingDescription
      else None)"

text \<open>Lines 697, 698 and 729 to 732: the outcome and the status.\<close>

definition succeeded_of :: "Transaction \<Rightarrow> string" where
  "succeeded_of b2cPayload = (if Result_ResultCode b2cPayload \<noteq> 0 then ''NO'' else ''YES'')"

definition status_of :: "Transaction \<Rightarrow> string" where
  "status_of b2cPayload =
     (if Result_ResultCode b2cPayload \<noteq> 0 then B2CStatus_String B2C_FAILED
      else B2CStatus_String B2C_SUCCESS)"

text \<open>Lines 751 to 762: the columns written on the update path.\<close>

definition outcome_map :: "Transaction \<Rightarrow> updates_map" where
  "outcome_map b2cPayload = \<lparr>
     u_result_code = Sprint_int (Result_ResultCode b2cPayload),
     u_result_description = Result_ResultDesc b2cPayload,
     u_working_account_funds = tx_B2CWorkingAccountAvailableFunds b2cPayload,
     u_utility_account_funds = tx_B2CUtilityAccountAvailableFunds b2cPayload,
     u_mpesa_charges = tx_B2CChargesPaidAccountAvailableFunds b2cPayload,
     u_recipient_registered = tx_B2CRecipientIsRegisteredCustomer b2cPayload,
     u_mpesa_receipt_id = tx_TransactionReceipt b2cPayload,
     u_transaction_time =
       \<lparr>nt_Time = tx_TransactionCompletedDateTime b2cPayload, nt_Valid = True\<rparr>,
     u_receiver_public_name = tx_ReceiverPartyPublicName b2cPayload,
     u_b2c_status = status_of b2cPayload,
     u_succeeded = succeeded_of b2cPayload \<rparr>"

text \<open>
  Lines 769 to 801: the record built on the create path. The timestamps that the struct
  literal leaves at zero are written as 0 here; \<open>Create\<close> sets them.
\<close>

definition new_Payment :: "TransferFundsRequest \<Rightarrow> Transaction \<Rightarrow> Payment" where
  "new_Payment tranferReq b2cPayload = \<lparr>
     ID = 0,
     InitiatorID = req_InitiatorId tranferReq,
     InitiatorCustomerReference = req_InitiatorCustomerReference tranferReq,
     InitiatorCustomerNames = req_InitiatorCustomerNames tranferReq,
     Msisdn = tx_MSISDN b2cPayload,
     OrgShortCode = req_ShortCode tranferReq,
     CommandId = CommandId_String (req_CommandId tranferReq),
     TransactionAmount = tx_TransactionAmount b2cPayload,
     ConversationID = tx_ConversationID b2cPayload,
     OriginatorConversationID = tx_OriginatorConversationID b2cPayload,
     ResponseDescription = [],
     ResponseCode = [],
     ResultCode = Sprint_int (Result_ResultCode b2cPayload),
     ResultDescription = Result_ResultDesc b2cPayload,
     WorkingAccountFunds = tx_B2CWorkingAccountAvailableFunds b2cPayload,
     UtilityAccountFunds = tx_B2CUtilityAccountAvailableFunds b2cPayload,
     MpesaCharges = tx_B2CChargesPaidAccountAvailableFunds b2cPayload,
     SystemCharges = 0,
     RecipientRegistered = tx_B2CRecipientIsRegisteredCustomer b2cPayload,
     MpesaReceiptId =
       \<lparr>ns_String = tx_TransactionReceipt b2cPayload,
        ns_Valid = (tx_TransactionReceipt b2cPayload \<noteq> [])\<rparr>,
     ReceiverPublicName = tx_ReceiverPartyPublicName b2cPayload,
     B2CStatus = status_of b2cPayload,
     Source = [],
     Tag = [],
     Succeeded = succeeded_of b2cPayload,
     Processed = ''NO'',
     TransactionTime =
       \<lparr>nt_Time = tx_TransactionCompletedDateTime b2cPayload, nt_Valid = True\<rparr>,
     UpdatedAt = 0,
     CreatedAt = 0 \<rparr>"

text \<open>
  Lines 817 to 843: the calls to \<open>PublishB2CPayment\<close> that the gate makes. An error of the
  call is only logged.
\<close>

definition publish_calls ::
  "TransferFundsRequest \<Rightarrow> Transaction \<Rightarrow> B2CPayment \<Rightarrow> call list" where
  "publish_calls tranferReq b2cPayload pb =
     (let publish = [PublishCall \<lparr>
            pm_InitiatorId = req_InitiatorId tranferReq,
            pm_TransactionId = pb_TransactionId pb,
            pm_MpesaReceiptId = pb_MpesaReceiptId pb,
            pm_Msisdn = tx_MSISDN b2cPayload,
            pm_PublishInfo = req_PublishMessage tranferReq,
            pm_Payment = pb \<rparr>]
      in if req_Publish tranferReq
         then (if GetOnlyOnSuccess (req_PublishMessage tranferReq)
               then (if pb_Succeeded pb then publish else [])
               else publish)
         else [])"

text \<open>Lines 811 to 850: from the persisted record \<open>db\<close> to the response.\<close>

definition respond ::
  "b2cGateway \<Rightarrow> request \<Rightarrow> TransferFundsRequest \<Rightarrow> Transaction \<Rightarrow> Payment
     \<Rightarrow> (int \<times> handler_error option) \<times> b2cGateway" where
  "respond gw r tranferReq b2cPayload db =
     (case PaymentProto db of
        Inl err \<Rightarrow> ((StatusInternalServerError, Some FailedToGetB2CProto), gw)
      | Inr pb \<Rightarrow>
          (let gw' = gw\<lparr>calls := calls gw @ publish_calls tranferReq b2cPayload pb @ [WriteCall]\<rparr>
           in if write_ok r then ((StatusOK, None), gw')
              else ((StatusInternalServerError, Some WriteFailed), gw')))"

text \<open>
  Lines 734 to 809: the cache lookup and the upsert. \<open>others\<close> is what concurrent handlers
  do to the table between this handler's \<open>First\<close> and its write.
\<close>

definition reconcile ::
  "(store \<Rightarrow> store) \<Rightarrow> time \<Rightarrow> b2cGateway \<Rightarrow> request \<Rightarrow> Transaction
     \<Rightarrow> (int \<times> handler_error option) \<times> b2cGateway" where
  "reconcile others now gw r b2cPayload =
     (let key = GetMpesaRequestKey (tx_ConversationID b2cPayload);
          tranferReq = lookup_tranferReq (RedisDB gw) key;
          found = First (SQLDB gw) (tx_ConversationID b2cPayload);
          gw1 = gw\<lparr>SQLDB := others (SQLDB gw),
                   calls := calls gw @ [RedisGetCall key,
                                         FirstCall (tx_ConversationID b2cPayload)]\<rparr>
      in case found of
           Inr db \<Rightarrow>
             (let gw2 = gw1\<lparr>calls := calls gw1 @ [UpdatesCall (ID db) (outcome_map b2cPayload)]\<rparr>
              in case Updates (SQLDB gw2) now db (outcome_map b2cPayload) of
                   Inl err \<Rightarrow> ((StatusInternalServerError, Some (FailedToUpdateB2C err)), gw2)
                 | Inr (st, db') \<Rightarrow> respond (gw2\<lparr>SQLDB := st\<rparr>) r tranferReq b2cPayload db')
         | Inl ErrRecordNotFound \<Rightarrow>
             (let gw2 = gw1\<lparr>calls := calls gw1 @ [CreateCall (new_Payment tranferReq b2cPayload)]\<rparr>
              in case Create (SQLDB gw2) now (new_Payment tranferReq b2cPayload) of
                   Inl err \<Rightarrow>
                     ((StatusInternalServerError, Some (FailedToCreateB2CPayload err)), gw2)
                 | Inr (st, db') \<Rightarrow> respond (gw2\<lparr>SQLDB := st\<rparr>) r tranferReq b2cPayload db')
         | Inl err \<Rightarrow> ((StatusInternalServerError, Some FailedToCreateB2C), gw1))"

text \<open>Lines 689 to 727: method, content type, decoding and validation.\<close>

definition fromSaf_interleaved ::
  "(store \<Rightarrow> store) \<Rightarrow> time \<Rightarrow> b2cGateway \<Rightarrow> request
     \<Rightarrow> (int \<times> handler_error option) \<times> b2cGateway" where
  "fromSaf_interleaved others now gw r =
     (if Method r \<noteq> ''POST'' then ((StatusBadRequest, Some (BadMethod (Method r))), gw)
      else if ToLower (ContentType r) \<in> set [''application/json'',
                ''application/json;charset=utf-8'', ''application/json;charset=utf8'']
        then (case Body r of
                None \<Rightarrow> ((StatusBadRequest, Some DecodingJSONFailed), gw)
              | Some b2cPayload \<Rightarrow>
                  (case validate b2cPayload of
                     Some err \<Rightarrow> ((StatusBadRequest, Some err), gw)
                   | None \<Rightarrow> reconcile others now gw r b2cPayload))
      else ((StatusBadRequest, Some (UnexpectedContentType (ContentType r))), gw))"

text \<open>The handler with no other writer in between.\<close>

definition fromSaf ::
  "time \<Rightarrow> b2cGateway \<Rightarrow> request \<Rightarrow> (int \<times> handler_error option) \<times> b2cGateway" where
  "fromSaf now gw r = fromSaf_interleaved (\<lambda>st. st) now gw r"

section \<open>Notions used in the statements\<close>

text \<open>
  The store accepted the handler's write: the handler answered without an error, or
  with the error of the final \<open>w.Write\<close>, which comes after the record is persisted.
\<close>

definition stored :: "(int \<times> handler_error option) \<times> b2cGateway \<Rightarrow> bool" where
  "stored res = (snd (fst res) = None \<or> snd (fst res) = Some WriteFailed)"

text \<open>
  The columns that \<open>fromSaf\<close> sets only when it creates a record: the identity fields
  (initiator identity, organisation short code, command, amount, the two conversation
  identifiers), and after them the remaining columns that are not in the update map.
\<close>

definition kept_fields where
  "kept_fields x =
     (InitiatorID x, InitiatorCustomerReference x, InitiatorCustomerNames x,
      OrgShortCode x, CommandId x, TransactionAmount x,
      ConversationID x, OriginatorConversationID x,
      ID x, Msisdn x, ResponseDescription x, ResponseCode x, SystemCharges x,
      Source x, Tag x, Processed x, CreatedAt x)"

text \<open>The calls to \<open>PublishB2CPayment\<close> among a list of calls.\<close>

fun publishes :: "call list \<Rightarrow> PublishMessage list" where
  "publishes [] = []"
| "publishes (PublishCall m # cs) = m # publishes cs"
| "publishes (c # cs) = publishes cs"

subsection \<open>Example data\<close>

text \<open>
  A transfer request that asks for a notification only on success, a callback for it,
  a gateway with an empty table that has the request cached, and the HTTP request that
  delivers a callback.
\<close>

definition example_request :: TransferFundsRequest where
  "example_request = \<lparr>
     req_InitiatorId = ''shop-7'', req_InitiatorCustomerReference = ''inv-31'',
     req_InitiatorCustomerNames = ''Amina'', req_Msisdn = ''254700000001'',
     req_Amount = 150, req_ShortCode = ''600100'', req_Remarks = ''refund'',
     req_Occassion = ''refund'', req_CommandId = BUSINESS_PAYMENT, req_Publish = True,
     req_PublishMessage =
       Some \<lparr>pi_OnlyOnSuccess = True, pi_ChannelName = ''payouts'', pi_Payload = []\<rparr> \<rparr>"

definition example_callback :: "int \<Rightarrow> string \<Rightarrow> Transaction" where
  "example_callback code receipt = \<lparr>
     Result_ConversationID = ''AG_1'', Result_OriginatorConversationID = ''OC_1'',
     Result_ResultCode = code, Result_ResultDesc = ''processed'',
     tx_MSISDN = ''254700000001'', tx_TransactionAmount = 150,
     tx_TransactionReceipt = receipt, tx_ReceiverPartyPublicName = ''254700000001 - Amina'',
     tx_B2CRecipientIsRegisteredCustomer = True, tx_B2CWorkingAccountAvailableFunds = 900,
     tx_B2CUtilityAccountAvailableFunds = 850, tx_B2CChargesPaidAccountAvailableFunds = 0,
     tx_TransactionCompletedDateTime = 1700000000 \<rparr>"

definition example_gateway :: b2cGateway where
  "example_gateway = \<lparr>
     SQLDB = \<lparr>rows = [], next_id = 1, db_up = True\<rparr>,
     RedisDB = \<lparr>entries = [''mpesa:b2c:request:AG_1'' \<mapsto> Serialized example_request],
                redis_up = True\<rparr>,
     calls = [] \<rparr>"

definition deliver :: "Transaction \<Rightarrow> request" where
  "deliver p = \<lparr>Method = ''POST'', ContentType = ''application/json'',
                Body = Some p, write_ok = True\<rparr>"

section \<open>Public response shape\<close>

text \<open>
  C10. For every stored payment record the response message exists, its \<open>succeeded\<close> flag
  is true exactly when the stored tri-state outcome is the string YES, so that NO and
  UNKNOWN both give false, and its \<open>processed\<close> flag is true exactly when the stored
  processed value is the string YES.
\<close>

theorem PaymentProto_flags:
  "\<exists>pb. PaymentProto db = Inr pb
     \<and> pb_Succeeded pb = (Succeeded db = ''YES'')
     \<and> pb_Processed pb = (Processed db = ''YES'')"
  by (simp add: PaymentProto_def)

section \<open>Credential refresh: properties\<close>

text \<open>A refresh that returns an error leaves the server, and so the token, as it was.\<close>

lemma updateAccessToken_error_keeps_server:
  "updateAccessToken h b2cAPI = Ret (Some e, b2cAPI') \<Longrightarrow> b2cAPI' = b2cAPI"
  by (auto simp: updateAccessToken_def split: http_outcome.splits if_splits body_decode.splits)

lemma updateToken_failure:
  "updateAccessToken h (api w) = Ret (Some e, api w)
     \<Longrightarrow> updateToken h w = Ret ([Slept (sleep w)], w\<lparr>sleep := sleep w * 2\<rparr>)"
  by (simp add: updateToken_def)

lemma worker_loop_failures:
  "\<forall>h\<in>set hs. \<exists>e. updateAccessToken h (api w) = Ret (Some e, api w) \<Longrightarrow>
   worker_loop (map Tick hs @ es) w =
     (case worker_loop es (w\<lparr>sleep := sleep w * 2 ^ length hs\<rparr>) of
        (acts, w', x) \<Rightarrow> (map (\<lambda>k. Slept (sleep w * 2 ^ k)) [0..<length hs] @ acts, w', x))"
proof (induction hs arbitrary: w)
  case Nil
  then show ?case by simp
next
  case (Cons h hs)
  from Cons.prems obtain e where e: "updateAccessToken h (api w) = Ret (Some e, api w)"
    by auto
  let ?w = "w\<lparr>sleep := sleep w * 2\<rparr>"
  have step: "updateToken h w = Ret ([Slept (sleep w)], ?w)"
    using e by (rule updateToken_failure)
  have "\<forall>h\<in>set hs. \<exists>e. updateAccessToken h (api ?w) = Ret (Some e, api ?w)"
    using Cons.prems by simp
  from Cons.IH [OF this] show ?case
    by (simp add: step map_upt_Suc mult.assoc split: prod.splits del: upt_Suc)
qed

lemma sint_backoff:
  assumes "k < 30"
  shows "sint (Second * 10 * 2 ^ k :: 64 word) = 10 * 10 ^ 9 * 2 ^ k"
proof -
  have le: "(2::int) ^ k \<le> 2 ^ 29"
    using assms by (intro power_increasing) auto
  have "(10 * 10 ^ 9 * 2 ^ k :: int) \<le> 10 * 10 ^ 9 * 2 ^ 29"
    using le by simp
  then have up: "(10 * 10 ^ 9 * 2 ^ k :: int) < 2 ^ 63" by simp
  have pos: "(0::int) \<le> 10 * 10 ^ 9 * 2 ^ k"
    by (intro mult_nonneg_nonneg) simp_all
  have "- (2 ^ 63) \<le> (0::int)" by simp
  from this pos have lo: "- (2 ^ 63) \<le> (10 * 10 ^ 9 * 2 ^ k :: int)"
    by (rule order_trans)
  have eq: "(Second * 10 * 2 ^ k :: 64 word) = word_of_int (10 * 10 ^ 9 * 2 ^ k)"
    by (simp add: Second_def)
  have n: "LENGTH(64) - 1 = 63" by simp
  have "sint (Second * 10 * 2 ^ k :: 64 word)
          = sint (word_of_int (10 * 10 ^ 9 * 2 ^ k) :: 64 word)"
    by (simp only: eq)
  also have "\<dots> = signed_take_bit (LENGTH(64) - 1) (10 * 10 ^ 9 * 2 ^ k :: int)"
    by (rule sint_sbintrunc')
  also have "\<dots> = 10 * 10 ^ 9 * 2 ^ k"
    unfolding n by (rule signed_take_bit_int_eq_self [OF lo up])
  finally show ?thesis .
qed

text \<open>
  C2. A response with status 200 and a JSON content type whose body is the empty object,
  so without the field \<open>access_token\<close>, should be a refresh failure that leaves the stored
  token as it was. Evaluated on that response with the token \<open>live-token\<close> in place,
  \<open>updateAccessToken\<close> returns no error and stores the text \<open><nil>\<close> as the token.
\<close>

theorem updateAccessToken_missing_field_overwrites:
  "updateAccessToken (Response 200 ''application/json'' (DecodeObject Map.empty))
     \<lparr>accessToken = ''live-token''\<rparr>
   = Ret (None, \<lparr>accessToken = ''<nil>''\<rparr>)"
  by (simp add: updateAccessToken_def StatusOK_def ToLower_def lower_char_def)

text \<open>
  C6, as the claim states it: the doubling is bounded by a ceiling. After thirty
  consecutive failures the delay has doubled twenty-nine times, to 5368709120 seconds,
  and the next doubling wraps the signed 64-bit nanosecond count around to a negative
  value; no ceiling is applied on the way.
\<close>

theorem backoff_not_capped:
  "waits (fst (updateAccessTokenWorker DoError (replicate 30 (Tick DoError))
                 \<lparr>accessToken = ''live-token''\<rparr>)) ! 29 = 5368709120 * 10 ^ 9
   \<and> waits (fst (updateAccessTokenWorker DoError (replicate 30 (Tick DoError))
                   \<lparr>accessToken = ''live-token''\<rparr>)) ! 30 = - 7709325833709551616"
  by (simp add: updateAccessTokenWorker_def updateToken_def updateAccessToken_def Second_def
      eval_nat_numeral)

text \<open>
  C6, amended. Starting from the base delay of 10 seconds, up to thirty consecutive
  failed refreshes sleep for 10, 20, 40, ... seconds, the k-th of them (counting from 0)
  for \<open>10 * 2 ^ k\<close> seconds with no ceiling applied, and after a successful refresh the
  next failed refresh sleeps for 10 seconds again. Durations are in nanoseconds.
\<close>

theorem backoff_doubles_and_resets:
  assumes fails: "\<forall>h\<in>set hs. \<exists>e. updateAccessToken h a = Ret (Some e, a)"
    and len: "length hs \<le> 30"
    and ok: "updateAccessToken h_ok a = Ret (None, a')"
    and bad: "updateAccessToken h_bad a' = Ret (Some e', a')"
  shows "waits (fst (worker_loop (map Tick hs @ [Tick h_ok, Tick h_bad])
                      \<lparr>api = a, sleep = Second * 10\<rparr>))
         = map (\<lambda>k. 10 * 10 ^ 9 * 2 ^ k) [0..<length hs] @ [10 * 10 ^ 9]"
proof -
  let ?w = "\<lparr>api = a, sleep = Second * 10\<rparr>"
  have rest: "worker_loop [Tick h_ok, Tick h_bad] \<lparr>api = a, sleep = s\<rparr>
                = ([TickerReset, Slept (Second * 10)], \<lparr>api = a', sleep = Second * 10 * 2\<rparr>, Waiting)"
    for s using ok bad by (simp add: updateToken_def)
  have "\<forall>h\<in>set hs. \<exists>e. updateAccessToken h (api ?w) = Ret (Some e, api ?w)"
    using fails by simp
  then have A: "worker_loop (map Tick hs @ [Tick h_ok, Tick h_bad]) ?w =
     (case worker_loop [Tick h_ok, Tick h_bad] (?w\<lparr>sleep := sleep ?w * 2 ^ length hs\<rparr>) of
        (acts, w', x) \<Rightarrow> (map (\<lambda>k. Slept (sleep ?w * 2 ^ k)) [0..<length hs] @ acts, w', x))"
    by (rule worker_loop_failures)
  have B: "?w\<lparr>sleep := sleep ?w * 2 ^ length hs\<rparr> = \<lparr>api = a, sleep = Second * 10 * 2 ^ length hs\<rparr>"
    by simp
  have run: "fst (worker_loop (map Tick hs @ [Tick h_ok, Tick h_bad]) ?w)
               = map (\<lambda>k. Slept (Second * 10 * 2 ^ k)) [0..<length hs]
                 @ [TickerReset, Slept (Second * 10)]"
    unfolding A B rest by simp
  have w1: "waits (xs @ ys) = waits xs @ waits ys" for xs ys
    by (induction xs rule: waits.induct) simp_all
  have w2: "waits (map (\<lambda>k. Slept (f k)) ks) = map (\<lambda>k. sint (f k)) ks" for f ks
    by (induction ks) simp_all
  have "map (\<lambda>k. sint (Second * 10 * 2 ^ k :: 64 word)) [0..<length hs]
          = map (\<lambda>k. 10 * 10 ^ 9 * 2 ^ k) [0..<length hs]"
    using len by (intro map_cong refl sint_backoff) auto
  moreover have "sint (Second * 10 :: 64 word) = 10 * 10 ^ 9"
    using sint_backoff [of 0] by simp
  ultimately show ?thesis
    by (simp only: run w1 w2 waits.simps append_Nil append_Nil2)
qed

theorem backoff_doubles_and_resets_witness:
  "waits (fst (worker_loop (map Tick [DoError, Response 500 [] DecodeEOF, NewRequestError]
                              @ [Tick (Response 200 ''application/json''
                                         (DecodeObject [''access_token'' \<mapsto> JString ''t1''])),
                                 Tick DoError])
                 \<lparr>api = \<lparr>accessToken = ''t0''\<rparr>, sleep = Second * 10\<rparr>))
     = [10000000000, 20000000000, 40000000000, 10000000000]"
  using backoff_doubles_and_resets [of "[DoError, Response 500 [] DecodeEOF, NewRequestError]"
      "\<lparr>accessToken = ''t0''\<rparr>"
      "Response 200 ''application/json'' (DecodeObject [''access_token'' \<mapsto> JString ''t1''])"
      "\<lparr>accessToken = ''t1''\<rparr>" DoError RequestFailed]
  by (simp add: updateAccessToken_def StatusOK_def ToLower_def lower_char_def upt_rec)


text \<open>
  C8. The loop should leave promptly on shutdown also while it waits out a backoff
  delay. In \<open>updateAccessTokenWorker\<close> the delay is a \<open>time.Sleep\<close> inside \<open>updateToken\<close>,
  which does not look at the context: when the first refresh fails and the only thing
  that ever arrives afterwards is the shutdown signal, the worker still sleeps the whole
  10 seconds and resets the ticker before the select in which it sees the signal.
\<close>

theorem worker_sleeps_before_observing_shutdown:
  "updateAccessTokenWorker DoError [CtxDone] \<lparr>accessToken = ''live-token''\<rparr>
   = ([Slept (Second * 10), TickerReset],
      \<lparr>api = \<lparr>accessToken = ''live-token''\<rparr>, sleep = Second * 20\<rparr>, Returned)"
  by (simp add: updateAccessTokenWorker_def updateToken_def updateAccessToken_def Second_def)

end
